theory Spec2Isabelle
  imports Main "HOL-Library.Word"
begin

unbundle bit_operations_syntax

section \<open>Data model of include/ipxe/dma.h\<close>

text \<open>
  \<open>physaddr_t\<close>, \<open>size_t\<close> and data pointers are unsigned machine words of the
  platform's width, which the header does not fix: they are \<open>'a word\<close> for any
  width \<open>'a\<close>, and the records take the word type as their parameter \<open>'w\<close>.
  A \<open>NULL\<close> pointer is the word \<open>0\<close>. \<open>int\<close> and \<open>unsigned int\<close> are 32-bit
  words, so the debug counters wrap around modulo \<open>2 ^ 32\<close>.
\<close>

type_synonym c_int = "32 word"
type_synonym c_uint = "32 word"

text \<open>\<open>struct dma_mapping\<close>: device-side address and platform mapping token.\<close>

record 'w dma_mapping =
  addr :: 'w
  token :: 'w

text \<open>
  \<open>struct dma_device\<close>: operations table pointer, addressable space mask and the two
  debugging counters. The field \<open>mask\<close> is named \<open>mask_dev\<close> here, since \<open>mask\<close>
  is a constant of the word library.
\<close>

record 'w dma_device =
  op :: 'w
  mask_dev :: 'w
  mapped :: c_uint
  allocated :: c_uint

definition DMA_TX :: c_int where
  "DMA_TX = 0x01"

definition DMA_RX :: c_int where
  "DMA_RX = 0x02"

definition DMA_BI :: c_int where
  "DMA_BI = (DMA_TX OR DMA_RX)"

text \<open>
  What the header takes from elsewhere: the build-time constant \<open>DBG_LOG\<close>, the address
  translation \<open>virt_to_phys\<close> (ipxe/io.h) and the physical-memory allocator
  \<open>malloc_phys\<close> / \<open>free_phys\<close> (ipxe/malloc.h). They are parameters of the model.
  The allocator works on a heap of type \<open>'h\<close>, which it takes and returns;
  \<open>malloc_phys\<close> returns the buffer address, \<open>0\<close> on failure.
\<close>

record ('w, 'h) platform =
  DBG_LOG :: bool
  virt_to_phys :: "'w \<Rightarrow> 'w"
  malloc_phys :: "'w \<Rightarrow> 'w \<Rightarrow> 'h \<Rightarrow> 'w \<times> 'h"
  free_phys :: "'w \<Rightarrow> 'w \<Rightarrow> 'h \<Rightarrow> 'h"

section \<open>Flat operations\<close>

text \<open>
  Each operation takes the objects it is given by pointer and returns them as they are
  after the call, next to its return value.
\<close>

text \<open>\<open>DMAAPI_INLINE ( flat, dma_map )\<close>: returns \<open>(rc, *dma, *map)\<close>.\<close>

definition flat_dma_map ::
  "('a::len word, 'h) platform \<Rightarrow> 'a word dma_device \<Rightarrow> 'a word \<Rightarrow> 'a word \<Rightarrow> c_int \<Rightarrow>
   'a word dma_mapping \<Rightarrow> c_int \<times> 'a word dma_device \<times> 'a word dma_mapping" where
  "flat_dma_map P dma a len flags mp =
     (let mp1 = mp\<lparr>addr := a\<rparr>;
          dma1 = (if DBG_LOG P then dma\<lparr>mapped := mapped dma + 1\<rparr> else dma)
      in (0, dma1, mp1))"

text \<open>\<open>DMAAPI_INLINE ( flat, dma_unmap )\<close>: returns \<open>(*dma, *map)\<close>.\<close>

definition flat_dma_unmap ::
  "('a::len word, 'h) platform \<Rightarrow> 'a word dma_device \<Rightarrow> 'a word dma_mapping \<Rightarrow>
   'a word dma_device \<times> 'a word dma_mapping" where
  "flat_dma_unmap P dma mp =
     ((if DBG_LOG P then dma\<lparr>mapped := mapped dma - 1\<rparr> else dma), mp)"

text \<open>\<open>DMAAPI_INLINE ( flat, dma_alloc )\<close>: returns \<open>(addr, *dma, *map, heap)\<close>.\<close>

definition flat_dma_alloc ::
  "('a::len word, 'h) platform \<Rightarrow> 'a word dma_device \<Rightarrow> 'a word \<Rightarrow> 'a word \<Rightarrow>
   'a word dma_mapping \<Rightarrow> 'h \<Rightarrow> 'a word \<times> 'a word dma_device \<times> 'a word dma_mapping \<times> 'h" where
  "flat_dma_alloc P dma len align mp h =
     (let r = malloc_phys P len align h;
          a = fst r;
          mp1 = mp\<lparr>addr := virt_to_phys P a\<rparr>;
          dma1 = (if DBG_LOG P \<and> a \<noteq> 0 then dma\<lparr>allocated := allocated dma + 1\<rparr>
                  else dma)
      in (a, dma1, mp1, snd r))"

text \<open>\<open>DMAAPI_INLINE ( flat, dma_free )\<close>: returns \<open>(*dma, *map, heap)\<close>.\<close>

definition flat_dma_free ::
  "('a::len word, 'h) platform \<Rightarrow> 'a word dma_device \<Rightarrow> 'a word \<Rightarrow> 'a word \<Rightarrow>
   'a word dma_mapping \<Rightarrow> 'h \<Rightarrow> 'a word dma_device \<times> 'a word dma_mapping \<times> 'h" where
  "flat_dma_free P dma a len mp h =
     (let h1 = free_phys P a len h;
          dma1 = (if DBG_LOG P then dma\<lparr>allocated := allocated dma - 1\<rparr> else dma)
      in (dma1, mp, h1))"

text \<open>\<open>DMAAPI_INLINE ( flat, dma_set_mask )\<close>: nothing to do.\<close>

definition flat_dma_set_mask ::
  "'a::len word dma_device \<Rightarrow> 'a word \<Rightarrow> 'a word dma_device" where
  "flat_dma_set_mask dma msk = dma"

section \<open>Device initialisation and convenience wrappers\<close>

definition dma_init :: "'a::len word dma_device \<Rightarrow> 'a word \<Rightarrow> 'a word dma_device" where
  "dma_init dma opt = dma\<lparr>op := opt\<rparr>"

text \<open>
  \<open>dma_set_mask\<close> and \<open>dma_map\<close> are API functions whose implementation is selected at
  build time; the header holds the flat ones. The wrappers take the selected
  implementation as their first argument.
\<close>

definition dma_set_mask_64bit ::
  "('a::len word dma_device \<Rightarrow> 'a word \<Rightarrow> 'a word dma_device) \<Rightarrow>
   'a word dma_device \<Rightarrow> 'a word dma_device" where
  "dma_set_mask_64bit dma_set_mask dma = dma_set_mask dma (NOT 0)"

text \<open>
  \<open>struct io_buffer\<close> is declared in ipxe/iobuf.h; only its \<open>data\<close> pointer is read
  here. \<open>iob_len\<close> comes from the same header and is a parameter.
\<close>

record 'w io_buffer =
  data :: 'w

definition dma_map_tx_iob ::
  "('a::len word dma_device \<Rightarrow> 'a word \<Rightarrow> 'a word \<Rightarrow> c_int \<Rightarrow> 'a word dma_mapping \<Rightarrow>
      c_int \<times> 'a word dma_device \<times> 'a word dma_mapping) \<Rightarrow>
   ('a word \<Rightarrow> 'a word) \<Rightarrow> (('a word, 'm) io_buffer_scheme \<Rightarrow> 'a word) \<Rightarrow>
   'a word dma_device \<Rightarrow> ('a word, 'm) io_buffer_scheme \<Rightarrow> 'a word dma_mapping \<Rightarrow>
   c_int \<times> 'a word dma_device \<times> 'a word dma_mapping" where
  "dma_map_tx_iob dma_map v2p iob_len dma iobuf mp =
     dma_map dma (v2p (data iobuf)) (iob_len iobuf) DMA_TX mp"

section \<open>Sequences of calls on one device\<close>

text \<open>
  A driver's calls on a device, each with the arguments it passes. \<open>dma_run\<close> performs
  them in order with the flat operations, on the device and the allocator's heap.
\<close>

datatype 'w dma_call =
  Call_map 'w 'w c_int "'w dma_mapping"
| Call_unmap "'w dma_mapping"
| Call_alloc 'w 'w "'w dma_mapping"
| Call_free 'w 'w "'w dma_mapping"

fun dma_step ::
  "('a::len word, 'h) platform \<Rightarrow> 'a word dma_call \<Rightarrow> 'a word dma_device \<times> 'h \<Rightarrow>
   'a word dma_device \<times> 'h" where
  "dma_step P (Call_map a len flags mp) (dma, h) =
     (fst (snd (flat_dma_map P dma a len flags mp)), h)"
| "dma_step P (Call_unmap mp) (dma, h) = (fst (flat_dma_unmap P dma mp), h)"
| "dma_step P (Call_alloc len align mp) (dma, h) =
     (fst (snd (flat_dma_alloc P dma len align mp h)),
      snd (snd (snd (flat_dma_alloc P dma len align mp h))))"
| "dma_step P (Call_free a len mp) (dma, h) =
     (fst (flat_dma_free P dma a len mp h), snd (snd (flat_dma_free P dma a len mp h)))"

fun dma_run ::
  "('a::len word, 'h) platform \<Rightarrow> 'a word dma_call list \<Rightarrow> 'a word dma_device \<times> 'h \<Rightarrow>
   'a word dma_device \<times> 'h" where
  "dma_run P [] s = s"
| "dma_run P (c # cs) s = dma_run P cs (dma_step P c s)"

text \<open>
  The specification's count of outstanding operations, as unbounded naturals: the
  number of map calls without a matching unmap and of successful alloc calls without a
  matching free, starting from \<open>(m, n)\<close>. An alloc that returns \<open>NULL\<close> leaves nothing
  to free and is not counted. The result is \<open>None\<close> when the sequence releases more
  than is outstanding.
\<close>

fun outstanding ::
  "('a::len word, 'h) platform \<Rightarrow> 'a word dma_call list \<Rightarrow> 'h \<Rightarrow> nat \<times> nat \<Rightarrow>
   (nat \<times> nat) option" where
  "outstanding P [] h (m, n) = Some (m, n)"
| "outstanding P (Call_map a len flags mp # cs) h (m, n) = outstanding P cs h (Suc m, n)"
| "outstanding P (Call_unmap mp # cs) h (m, n) =
     (if m = 0 then None else outstanding P cs h (m - 1, n))"
| "outstanding P (Call_alloc len align mp # cs) h (m, n) =
     outstanding P cs (snd (malloc_phys P len align h))
       (m, if fst (malloc_phys P len align h) = 0 then n else Suc n)"
| "outstanding P (Call_free a len mp # cs) h (m, n) =
     (if n = 0 then None else outstanding P cs (free_phys P a len h) (m, n - 1))"

section \<open>The specification's outbound wrapper\<close>

text \<open>
  The specification's \<open>map_outbound\<close>: derive the address and the length from the
  data buffer and call \<open>map\<close> with the transmit direction.
\<close>

datatype direction = Transmit | Receive | Bidirectional

fun direction_flags :: "direction \<Rightarrow> c_int" where
  "direction_flags Transmit = DMA_TX"
| "direction_flags Receive = DMA_RX"
| "direction_flags Bidirectional = DMA_BI"

definition map_outbound ::
  "('d \<Rightarrow> 'w \<Rightarrow> 'w \<Rightarrow> c_int \<Rightarrow> 'r \<Rightarrow> 'o) \<Rightarrow> ('b \<Rightarrow> 'w) \<Rightarrow> ('b \<Rightarrow> 'w) \<Rightarrow> 'd \<Rightarrow> 'b \<Rightarrow> 'r \<Rightarrow> 'o" where
  "map_outbound map_op address_of length_of device buffer record =
     map_op device (address_of buffer) (length_of buffer) (direction_flags Transmit) record"

section \<open>A sample platform\<close>

text \<open>
  A concrete platform on which the model is evaluated at explicit inputs: addresses are
  not translated, and the allocator hands out the buffers of a pool (the list of free
  buffer addresses), failing with \<open>NULL\<close> when the pool is empty.
\<close>

definition pool_malloc_phys :: "'w::zero \<Rightarrow> 'w \<Rightarrow> 'w list \<Rightarrow> 'w \<times> 'w list" where
  "pool_malloc_phys len align h = (case h of [] \<Rightarrow> (0, []) | b # bs \<Rightarrow> (b, bs))"

definition pool_free_phys :: "'w \<Rightarrow> 'w \<Rightarrow> 'w list \<Rightarrow> 'w list" where
  "pool_free_phys a len h = a # h"

definition pool_platform :: "bool \<Rightarrow> ('a::len word, 'a word list) platform" where
  "pool_platform dbg =
     \<lparr>DBG_LOG = dbg, virt_to_phys = id,
      malloc_phys = pool_malloc_phys, free_phys = pool_free_phys\<rparr>"

definition dev0 :: "64 word dma_device" where
  "dev0 = \<lparr>op = 0, mask_dev = 0xFFFFFFFF, mapped = 0, allocated = 0\<rparr>"

definition map0 :: "64 word dma_mapping" where
  "map0 = \<lparr>addr = 0xDEAD, token = 0xBEEF\<rparr>"

section \<open>Evaluation of the flat operations\<close>

lemma flat_dma_map_eq:
  "flat_dma_map P dma a len flags mp =
     (0, (if DBG_LOG P then dma\<lparr>mapped := mapped dma + 1\<rparr> else dma), mp\<lparr>addr := a\<rparr>)"
  by (simp add: flat_dma_map_def)

lemma flat_dma_unmap_eq:
  "flat_dma_unmap P dma mp =
     ((if DBG_LOG P then dma\<lparr>mapped := mapped dma - 1\<rparr> else dma), mp)"
  by (simp add: flat_dma_unmap_def)

lemma flat_dma_alloc_eq:
  "flat_dma_alloc P dma len align mp h =
     (fst (malloc_phys P len align h),
      (if DBG_LOG P \<and> fst (malloc_phys P len align h) \<noteq> 0
       then dma\<lparr>allocated := allocated dma + 1\<rparr> else dma),
      mp\<lparr>addr := virt_to_phys P (fst (malloc_phys P len align h))\<rparr>,
      snd (malloc_phys P len align h))"
  by (simp add: flat_dma_alloc_def Let_def)

lemma flat_dma_free_eq:
  "flat_dma_free P dma a len mp h =
     ((if DBG_LOG P then dma\<lparr>allocated := allocated dma - 1\<rparr> else dma), mp,
      free_phys P a len h)"
  by (simp add: flat_dma_free_def)

lemma pool_platform_sel:
  "DBG_LOG (pool_platform dbg) = dbg"
  "virt_to_phys (pool_platform dbg) v = v"
  "malloc_phys (pool_platform dbg) len align [] = (0, [])"
  "malloc_phys (pool_platform dbg) len align (b # bs) = (b, bs)"
  "free_phys (pool_platform dbg) a len h = a # h"
  by (simp_all add: pool_platform_def pool_malloc_phys_def pool_free_phys_def)

section \<open>Flat map\<close>

text \<open>
  C1. For every device, address, length and flags the flat \<open>dma_map\<close> returns status 0
  (it has no failing path, so no range error either), stores the input address in the
  mapping's \<open>addr\<close>, and with \<open>DBG_LOG\<close> set increments \<open>mapped\<close> by one. The counter
  is an \<open>unsigned int\<close>: the increment is the machine's, modulo \<open>2 ^ 32\<close>.
\<close>

theorem flat_dma_map_succeeds:
  "fst (flat_dma_map P dma a len flags mp) = 0 \<and>
   addr (snd (snd (flat_dma_map P dma a len flags mp))) = a \<and>
   (DBG_LOG P \<longrightarrow>
      mapped (fst (snd (flat_dma_map P dma a len flags mp))) = mapped dma + 1 \<and>
      unat (mapped (fst (snd (flat_dma_map P dma a len flags mp)))) =
        (unat (mapped dma) + 1) mod 2 ^ 32)"
  by (simp add: flat_dma_map_eq unat_word_ariths)

theorem flat_dma_map_succeeds_witness:
  "DBG_LOG (pool_platform True :: (64 word, 64 word list) platform) \<and>
   fst (flat_dma_map (pool_platform True) dev0 0x1000 64 DMA_TX map0) = 0 \<and>
   addr (snd (snd (flat_dma_map (pool_platform True) dev0 0x1000 64 DMA_TX map0))) = 0x1000 \<and>
   mapped (fst (snd (flat_dma_map (pool_platform True) dev0 0x1000 64 DMA_TX map0))) = 1"
proof -
  have d: "DBG_LOG (pool_platform True :: (64 word, 64 word list) platform)"
    by (simp add: pool_platform_sel)
  have z: "mapped dev0 = 0"
    by (simp add: dev0_def)
  from flat_dma_map_succeeds [of "pool_platform True" dev0 "0x1000" 64 DMA_TX map0] d z
  show ?thesis by simp
qed

text \<open>
  C2. For an address within the device's mask, map followed by unmap of the resulting
  mapping leaves \<open>mapped\<close> (indeed the whole device) as it was, and the device address
  that map produced lies within the mask.
\<close>

theorem flat_map_unmap_roundtrip:
  assumes "a AND NOT (mask_dev dma) = 0"
  shows "mapped (fst (flat_dma_unmap P (fst (snd (flat_dma_map P dma a len flags mp)))
                  (snd (snd (flat_dma_map P dma a len flags mp))))) = mapped dma \<and>
         fst (flat_dma_unmap P (fst (snd (flat_dma_map P dma a len flags mp)))
                  (snd (snd (flat_dma_map P dma a len flags mp)))) = dma \<and>
         addr (snd (snd (flat_dma_map P dma a len flags mp))) AND NOT (mask_dev dma) = 0"
  using assms by (simp add: flat_dma_map_eq flat_dma_unmap_eq)

theorem flat_map_unmap_roundtrip_witness:
  "(0x1000 :: 64 word) AND NOT (mask_dev dev0) = 0 \<and>
   fst (flat_dma_unmap (pool_platform True)
          (fst (snd (flat_dma_map (pool_platform True) dev0 0x1000 64 DMA_TX map0)))
          (snd (snd (flat_dma_map (pool_platform True) dev0 0x1000 64 DMA_TX map0)))) = dev0 \<and>
   addr (snd (snd (flat_dma_map (pool_platform True) dev0 0x1000 64 DMA_TX map0)))
     AND NOT (mask_dev dev0) = 0"
proof -
  have m: "(0x1000 :: 64 word) AND NOT (mask_dev dev0) = 0"
    by (simp add: dev0_def)
  from flat_map_unmap_roundtrip [OF m, of "pool_platform True" 64 DMA_TX map0] m
  show ?thesis by simp
qed

section \<open>Address mask\<close>

text \<open>
  C7. The flat \<open>dma_set_mask\<close> does nothing: for every device and mask argument the
  device is returned as it was, field by field.
\<close>

theorem flat_dma_set_mask_noop:
  "flat_dma_set_mask dma msk = dma \<and>
   op (flat_dma_set_mask dma msk) = op dma \<and>
   mask_dev (flat_dma_set_mask dma msk) = mask_dev dma \<and>
   mapped (flat_dma_set_mask dma msk) = mapped dma \<and>
   allocated (flat_dma_set_mask dma msk) = allocated dma"
  by (simp add: flat_dma_set_mask_def)

text \<open>
  C3, as the specification states it, fails with the flat operations: a device whose
  mask is \<open>0xFFFFFFFF\<close> still has that mask after \<open>dma_set_mask_64bit\<close>, not the
  all-ones mask.
\<close>

theorem dma_set_mask_64bit_flat_counterexample:
  "mask_dev (dma_set_mask_64bit flat_dma_set_mask dev0) = 0xFFFFFFFF \<and>
   mask_dev (dma_set_mask_64bit flat_dma_set_mask dev0) \<noteq> NOT 0"
  by (simp add: dma_set_mask_64bit_def flat_dma_set_mask_def dev0_def)

text \<open>
  C3, amended. \<open>dma_set_mask_64bit\<close> calls \<open>dma_set_mask\<close> with the mask that has
  every bit set. With the flat operations that call changes nothing, so the device
  keeps the mask it had; a flat map of any address right afterwards returns status 0.
\<close>

theorem dma_set_mask_64bit_flat:
  "dma_set_mask_64bit dma_set_mask dma = dma_set_mask dma (- 1) \<and>
   dma_set_mask_64bit flat_dma_set_mask dma = dma \<and>
   fst (flat_dma_map P (dma_set_mask_64bit flat_dma_set_mask dma) a len flags mp) = 0"
  by (simp add: dma_set_mask_64bit_def flat_dma_set_mask_def flat_dma_map_eq)

section \<open>Flat alloc and free\<close>



text \<open>
  C5. When the allocator has a buffer for \<open>(len, align)\<close>, a flat \<open>dma_alloc\<close>
  followed by \<open>dma_free\<close> of the returned buffer with the same length leaves
  \<open>allocated\<close> (indeed the whole device) as it was, and the heap is the one
  \<open>free_phys\<close> returns for that buffer and length on the heap left by \<open>malloc_phys\<close>:
  the buffer went back to the allocator.
\<close>

theorem flat_alloc_free_roundtrip:
  assumes "fst (malloc_phys P len align h) \<noteq> 0"
  shows "allocated (fst (flat_dma_free P (fst (snd (flat_dma_alloc P dma len align mp h)))
                    (fst (flat_dma_alloc P dma len align mp h)) len
                    (fst (snd (snd (flat_dma_alloc P dma len align mp h))))
                    (snd (snd (snd (flat_dma_alloc P dma len align mp h)))))) = allocated dma \<and>
         fst (flat_dma_free P (fst (snd (flat_dma_alloc P dma len align mp h)))
                    (fst (flat_dma_alloc P dma len align mp h)) len
                    (fst (snd (snd (flat_dma_alloc P dma len align mp h))))
                    (snd (snd (snd (flat_dma_alloc P dma len align mp h))))) = dma \<and>
         snd (snd (flat_dma_free P (fst (snd (flat_dma_alloc P dma len align mp h)))
                    (fst (flat_dma_alloc P dma len align mp h)) len
                    (fst (snd (snd (flat_dma_alloc P dma len align mp h))))
                    (snd (snd (snd (flat_dma_alloc P dma len align mp h)))))) =
           free_phys P (fst (malloc_phys P len align h)) len (snd (malloc_phys P len align h))"
  using assms by (simp add: flat_dma_alloc_eq flat_dma_free_eq)

theorem flat_alloc_free_roundtrip_witness:
  "fst (malloc_phys (pool_platform True) 4096 4096 [0x2000 :: 64 word]) \<noteq> 0 \<and>
   fst (flat_dma_free (pool_platform True)
          (fst (snd (flat_dma_alloc (pool_platform True) dev0 4096 4096 map0 [0x2000])))
          (fst (flat_dma_alloc (pool_platform True) dev0 4096 4096 map0 [0x2000])) 4096
          (fst (snd (snd (flat_dma_alloc (pool_platform True) dev0 4096 4096 map0 [0x2000]))))
          (snd (snd (snd (flat_dma_alloc (pool_platform True) dev0 4096 4096 map0 [0x2000])))))
     = dev0 \<and>
   snd (snd (flat_dma_free (pool_platform True)
          (fst (snd (flat_dma_alloc (pool_platform True) dev0 4096 4096 map0 [0x2000])))
          (fst (flat_dma_alloc (pool_platform True) dev0 4096 4096 map0 [0x2000])) 4096
          (fst (snd (snd (flat_dma_alloc (pool_platform True) dev0 4096 4096 map0 [0x2000]))))
          (snd (snd (snd (flat_dma_alloc (pool_platform True) dev0 4096 4096 map0 [0x2000]))))))
     = [0x2000]"
proof -
  have s: "fst (malloc_phys (pool_platform True) 4096 4096 [0x2000 :: 64 word]) \<noteq> 0"
    by (simp add: pool_platform_sel)
  from flat_alloc_free_roundtrip [OF s, of dev0 map0] s
  show ?thesis by (simp add: pool_platform_sel)
qed

text \<open>
  C10. The flat \<open>dma_alloc\<close> writes the mapping's \<open>addr\<close> on every path: it is the
  physical translation of whatever \<open>malloc_phys\<close> returned, so on allocator failure it
  is the translation of \<open>NULL\<close>, whatever the field held before.
\<close>

theorem flat_dma_alloc_writes_addr:
  "addr (fst (snd (snd (flat_dma_alloc P dma len align mp h)))) =
     virt_to_phys P (fst (malloc_phys P len align h)) \<and>
   (fst (malloc_phys P len align h) = 0 \<longrightarrow>
      fst (flat_dma_alloc P dma len align mp h) = 0 \<and>
      addr (fst (snd (snd (flat_dma_alloc P dma len align mp h)))) = virt_to_phys P 0)"
  by (simp add: flat_dma_alloc_eq)

theorem flat_dma_alloc_writes_addr_witness:
  "fst (malloc_phys (pool_platform True) 4096 4096 ([] :: 64 word list)) = 0 \<and>
   addr map0 = 0xDEAD \<and>
   fst (flat_dma_alloc (pool_platform True) dev0 4096 4096 map0 []) = 0 \<and>
   addr (fst (snd (snd (flat_dma_alloc (pool_platform True) dev0 4096 4096 map0 [])))) = 0"
proof -
  have f: "fst (malloc_phys (pool_platform True) 4096 4096 ([] :: 64 word list)) = 0"
    by (simp add: pool_platform_sel)
  have a: "addr map0 = 0xDEAD"
    by (simp add: map0_def)
  from flat_dma_alloc_writes_addr [of "pool_platform True" dev0 4096 4096 map0 "[]"] f a
  show ?thesis by (simp add: pool_platform_sel)
qed

section \<open>Mapping token\<close>

text \<open>
  C9. The flat \<open>dma_map\<close> and \<open>dma_unmap\<close> neither write nor read the mapping's
  \<open>token\<close>: after either call the field holds the value it held before, and that value
  has no influence on the status, on the device or on the mapping's \<open>addr\<close>.
\<close>

theorem flat_map_unmap_token:
  "token (snd (snd (flat_dma_map P dma a len flags mp))) = token mp \<and>
   token (snd (flat_dma_unmap P dma mp)) = token mp \<and>
   snd (flat_dma_unmap P dma mp) = mp \<and>
   flat_dma_map P dma a len flags (mp\<lparr>token := t\<rparr>) =
     (fst (flat_dma_map P dma a len flags mp),
      fst (snd (flat_dma_map P dma a len flags mp)),
      (snd (snd (flat_dma_map P dma a len flags mp)))\<lparr>token := t\<rparr>) \<and>
   fst (flat_dma_unmap P dma (mp\<lparr>token := t\<rparr>)) = fst (flat_dma_unmap P dma mp)"
  by (simp add: flat_dma_map_eq flat_dma_unmap_eq)

section \<open>Outbound wrapper\<close>

text \<open>
  C8. \<open>dma_map_tx_iob\<close> is \<open>dma_map\<close> at the physical address of the buffer's data,
  the buffer's length and the flag \<open>DMA_TX\<close>, which is the specification's
  \<open>map_outbound\<close>: status, mapping and device are those of that \<open>dma_map\<close> call, for
  whichever implementation of \<open>dma_map\<close> is selected. With the flat one the status
  is 0.
\<close>

theorem dma_map_tx_iob_is_map:
  "dma_map_tx_iob dma_map v2p iob_len dma iobuf mp =
     dma_map dma (v2p (data iobuf)) (iob_len iobuf) DMA_TX mp \<and>
   dma_map_tx_iob dma_map v2p iob_len dma iobuf mp =
     map_outbound dma_map (v2p \<circ> data) iob_len dma iobuf mp \<and>
   dma_map_tx_iob (flat_dma_map P) (virt_to_phys P) iob_len dma iobuf mp =
     flat_dma_map P dma (virt_to_phys P (data iobuf)) (iob_len iobuf) 1 mp \<and>
   fst (dma_map_tx_iob (flat_dma_map P) (virt_to_phys P) iob_len dma iobuf mp) = 0"
  by (simp add: dma_map_tx_iob_def map_outbound_def DMA_TX_def flat_dma_map_eq)

section \<open>Debug counters along a sequence of calls\<close>

lemma of_nat_pred_word:
  "m \<noteq> 0 \<Longrightarrow> (of_nat (m - 1) :: 'b::len word) = of_nat m - 1"
  by (cases m) simp_all

lemma dma_step_counters:
  assumes "DBG_LOG P"
    and "outstanding P (c # cs) h (m, n) = Some r"
    and "mapped dma = of_nat m" and "allocated dma = of_nat n"
  shows "\<exists>m1 n1. outstanding P cs (snd (dma_step P c (dma, h))) (m1, n1) = Some r \<and>
           mapped (fst (dma_step P c (dma, h))) = of_nat m1 \<and>
           allocated (fst (dma_step P c (dma, h))) = of_nat n1"
proof (cases c)
  case (Call_map a len flags mp)
  with assms show ?thesis
    by (intro exI [of _ "Suc m"] exI [of _ n]) (simp add: flat_dma_map_eq)
next
  case (Call_unmap mp)
  with assms show ?thesis
    by (intro exI [of _ "m - 1"] exI [of _ n])
      (simp add: flat_dma_unmap_eq of_nat_pred_word split: if_splits)
next
  case (Call_alloc len align mp)
  with assms show ?thesis
    by (intro exI [of _ m]
          exI [of _ "if fst (malloc_phys P len align h) = 0 then n else Suc n"])
      (simp add: flat_dma_alloc_eq)
next
  case (Call_free a len mp)
  with assms show ?thesis
    by (intro exI [of _ m] exI [of _ "n - 1"])
      (simp add: flat_dma_free_eq of_nat_pred_word split: if_splits)
qed

lemma dma_run_counters:
  assumes "DBG_LOG P"
  shows "outstanding P cs h (m, n) = Some (m', n') \<Longrightarrow>
         mapped dma = of_nat m \<Longrightarrow> allocated dma = of_nat n \<Longrightarrow>
         mapped (fst (dma_run P cs (dma, h))) = of_nat m' \<and>
         allocated (fst (dma_run P cs (dma, h))) = of_nat n'"
proof (induction cs arbitrary: dma h m n)
  case Nil
  then show ?case by simp
next
  case (Cons c cs)
  from dma_step_counters [OF assms Cons.prems]
  obtain m1 n1 where
    o: "outstanding P cs (snd (dma_step P c (dma, h))) (m1, n1) = Some (m', n')" and
    k: "mapped (fst (dma_step P c (dma, h))) = of_nat m1"
       "allocated (fst (dma_step P c (dma, h))) = of_nat n1"
    by blast
  from Cons.IH [OF o k] show ?case
    by simp
qed

lemma outstanding_maps:
  "outstanding P (replicate k (Call_map a len flags mp)) h (m, n) = Some (m + k, n)"
  by (induction k arbitrary: m) simp_all

lemma dma_run_maps:
  "DBG_LOG P \<Longrightarrow>
   mapped (fst (dma_run P (replicate k (Call_map a len flags mp)) (dma, h))) =
     mapped dma + of_nat k"
  by (induction k arbitrary: dma) (simp_all add: flat_dma_map_eq)

text \<open>
  C6, as the specification states it, fails once \<open>2 ^ 32\<close> mappings are outstanding:
  after that many map calls on a fresh device, none of them unmapped, the
  \<open>unsigned int\<close> counter \<open>mapped\<close> has wrapped around to 0.
\<close>

theorem dma_counters_wrap_counterexample:
  "outstanding (pool_platform True)
     (replicate (2 ^ 32) (Call_map 0x1000 64 DMA_TX map0)) [] (0, 0) = Some (2 ^ 32, 0) \<and>
   unat (mapped (fst (dma_run (pool_platform True)
     (replicate (2 ^ 32) (Call_map 0x1000 64 DMA_TX map0)) (dev0, [])))) = 0"
proof -
  have d: "DBG_LOG (pool_platform True :: (64 word, 64 word list) platform)"
    by (simp add: pool_platform_sel)
  have w: "(of_nat (2 ^ 32) :: 32 word) = 0"
    by simp
  show ?thesis
    by (simp only: outstanding_maps dma_run_maps [OF d] w) (simp add: dev0_def)
qed

text \<open>
  C6, amended. In a build with \<open>DBG_LOG\<close>, start from a device whose counters are 0
  and perform any sequence of flat map, unmap, alloc and free calls that never releases
  more than is outstanding. Then \<open>mapped\<close> and \<open>allocated\<close>, which are unsigned and so
  never negative, equal the numbers of outstanding mappings and allocations modulo
  \<open>2 ^ 32\<close>: they equal those numbers whenever these are below \<open>2 ^ 32\<close>, and both
  are 0 when nothing is outstanding.
\<close>

theorem dma_counters_outstanding:
  assumes "DBG_LOG P"
    and "mapped dma = 0" and "allocated dma = 0"
    and "outstanding P cs h (0, 0) = Some (m, n)"
  shows "unat (mapped (fst (dma_run P cs (dma, h)))) = m mod 2 ^ 32 \<and>
         unat (allocated (fst (dma_run P cs (dma, h)))) = n mod 2 ^ 32 \<and>
         (m < 2 ^ 32 \<longrightarrow> unat (mapped (fst (dma_run P cs (dma, h)))) = m) \<and>
         (n < 2 ^ 32 \<longrightarrow> unat (allocated (fst (dma_run P cs (dma, h)))) = n) \<and>
         (m = 0 \<and> n = 0 \<longrightarrow>
            mapped (fst (dma_run P cs (dma, h))) = 0 \<and>
            allocated (fst (dma_run P cs (dma, h))) = 0)"
proof -
  from dma_run_counters [OF assms(1) assms(4), of dma] assms(2,3)
  have c: "mapped (fst (dma_run P cs (dma, h))) = of_nat m"
         "allocated (fst (dma_run P cs (dma, h))) = of_nat n"
    by simp_all
  show ?thesis
    unfolding c by (simp add: unat_of_nat)
qed

theorem dma_counters_outstanding_witness:
  "DBG_LOG (pool_platform True :: (64 word, 64 word list) platform) \<and>
   mapped dev0 = 0 \<and> allocated dev0 = 0 \<and>
   outstanding (pool_platform True)
     [Call_map 0x1000 64 DMA_TX map0, Call_alloc 4096 4096 map0,
      Call_map 0x3000 64 DMA_RX map0, Call_unmap map0] [0x2000] (0, 0) = Some (1, 1) \<and>
   unat (mapped (fst (dma_run (pool_platform True)
     [Call_map 0x1000 64 DMA_TX map0, Call_alloc 4096 4096 map0,
      Call_map 0x3000 64 DMA_RX map0, Call_unmap map0] (dev0, [0x2000])))) = 1 \<and>
   unat (allocated (fst (dma_run (pool_platform True)
     [Call_map 0x1000 64 DMA_TX map0, Call_alloc 4096 4096 map0,
      Call_map 0x3000 64 DMA_RX map0, Call_unmap map0] (dev0, [0x2000])))) = 1 \<and>
   outstanding (pool_platform True)
     [Call_map 0x1000 64 DMA_TX map0, Call_alloc 4096 4096 map0,
      Call_unmap map0, Call_free 0x2000 4096 map0] [0x2000] (0, 0) = Some (0, 0) \<and>
   mapped (fst (dma_run (pool_platform True)
     [Call_map 0x1000 64 DMA_TX map0, Call_alloc 4096 4096 map0,
      Call_unmap map0, Call_free 0x2000 4096 map0] (dev0, [0x2000]))) = 0 \<and>
   allocated (fst (dma_run (pool_platform True)
     [Call_map 0x1000 64 DMA_TX map0, Call_alloc 4096 4096 map0,
      Call_unmap map0, Call_free 0x2000 4096 map0] (dev0, [0x2000]))) = 0"
proof -
  have d: "DBG_LOG (pool_platform True :: (64 word, 64 word list) platform)"
    by (simp add: pool_platform_sel)
  have z: "mapped dev0 = 0" "allocated dev0 = 0"
    by (simp_all add: dev0_def)
  have o: "outstanding (pool_platform True)
     [Call_map 0x1000 64 DMA_TX map0, Call_alloc 4096 4096 map0,
      Call_map 0x3000 64 DMA_RX map0, Call_unmap map0] [0x2000 :: 64 word] (0, 0) = Some (1, 1)"
    by (simp add: pool_platform_sel)
  have b: "outstanding (pool_platform True)
     [Call_map 0x1000 64 DMA_TX map0, Call_alloc 4096 4096 map0,
      Call_unmap map0, Call_free 0x2000 4096 map0] [0x2000 :: 64 word] (0, 0) = Some (0, 0)"
    by (simp add: pool_platform_sel)
  from dma_counters_outstanding [OF d z o] dma_counters_outstanding [OF d z b] d z o b
  show ?thesis by simp
qed

end
